theory Spec2Isabelle
  imports Complex_Main
begin

section \<open>JSON values as Python sees them\<close>

text \<open>
  The scripts handle whatever \<open>json.loads\<close> returns: \<open>None\<close>, a bool, an int, a float,
  a str, a list or a dict. A dict is kept as an association list (its keys are distinct,
  lookups take the first binding), a str as the list of its characters.
\<close>

datatype json =
    JNull
  | JBool bool
  | JInt int
  | JFloat real
  | JStr string
  | JArr "json list"
  | JObj "(string \<times> json) list"

type_synonym dict = "(string \<times> json) list"

text \<open>\<open>d.get(k, dflt)\<close>; \<open>d.get(k)\<close> is \<open>py_get d k JNull\<close>.\<close>

definition py_get :: "dict \<Rightarrow> string \<Rightarrow> json \<Rightarrow> json" where
  "py_get d k dflt = (case map_of d k of Some v \<Rightarrow> v | None \<Rightarrow> dflt)"

text \<open>\<open>k in d\<close>.\<close>

definition has_key :: "string \<Rightarrow> dict \<Rightarrow> bool" where
  "has_key k d = (map_of d k \<noteq> None)"

text \<open>\<open>isinstance(v, dict)\<close>.\<close>

fun is_dict :: "json \<Rightarrow> bool" where
  "is_dict (JObj d) = True"
| "is_dict v = False"

text \<open>Truth value of a Python object, as \<open>if v:\<close> and \<open>not v\<close> take it.\<close>

fun truthy :: "json \<Rightarrow> bool" where
  "truthy JNull = False"
| "truthy (JBool b) = b"
| "truthy (JInt i) = (i \<noteq> 0)"
| "truthy (JFloat r) = (r \<noteq> 0)"
| "truthy (JStr s) = (s \<noteq> [])"
| "truthy (JArr xs) = (xs \<noteq> [])"
| "truthy (JObj d) = (d \<noteq> [])"

datatype exn = AttributeError | TypeError | ValueError

text \<open>
  \<open>len(v)\<close> and \<open>for x in v\<close>: a str yields its characters, a dict its keys, a list its
  elements; anything else raises \<open>TypeError\<close> (the result \<open>None\<close> here).
\<close>

fun py_len :: "json \<Rightarrow> nat option" where
  "py_len (JStr s) = Some (length s)"
| "py_len (JArr xs) = Some (length xs)"
| "py_len (JObj d) = Some (length d)"
| "py_len v = None"

fun py_iter :: "json \<Rightarrow> json list option" where
  "py_iter (JStr s) = Some (map (\<lambda>c. JStr [c]) s)"
| "py_iter (JArr xs) = Some xs"
| "py_iter (JObj d) = Some (map (\<lambda>kv. JStr (fst kv)) d)"
| "py_iter v = None"

section \<open>What the scripts print and write\<close>

text \<open>
  One constructor for each \<open>print\<close> or \<open>debug\<close> call of \<open>send_jsonrpc\<close>, \<open>read_responses\<close>
  and \<open>read_streaming\<close>, holding the values the call formats. The layout of the text is
  not recorded. The last five belong to \<open>read_streaming\<close> of \<open>test-gen-acp.py\<close>.
\<close>

datatype out =
    Print_sent string int
  | Debug_payload string int json
  | Debug_response json
  | Debug_msg nat json
  | Print_agent_text json
  | Print_agent_chunk_raw json
  | Print_thinking json
  | Print_plan nat
  | Print_plan_entry json json
  | Print_tool_call json json json json
  | Print_tool_update json json
  | Print_tool_content json
  | Print_tool_diff json
  | Print_commands "string list"
  | Debug_config_options json
  | Print_mode_update json
  | Print_update json json
  | Print_permission_request
  | Print_permission_option json json
  | Print_auto_allowing json
  | Print_incoming_request json json
  | Debug_params json
  | Print_responded_not_supported
  | Print_done json nat
  | Print_result json
  | Print_error json
  | Print_unknown_msg json
  | Print_raw string
  | Print_timeout int nat
  | Print_timeout_acp int nat real real
  | Print_tool_call_gen json json
  | Debug_available_commands
  | Debug_update json
  | Print_stop json
  | Print_timeout_gen int nat real

text \<open>
  A line written to the child's stdin, by the \<open>json.dumps\<close> call that builds it:
  the request of \<open>send_jsonrpc\<close> (id, method, params), the answer to a permission request
  (the peer's id, the chosen \<open>optionId\<close>) and the method-not-supported error (the peer's
  id, the method).
\<close>

datatype sent =
    Request int string json
  | Permission_response json json
  | Method_not_supported json json

section \<open>The body of the streaming loop\<close>

text \<open>How one pass through the body of \<open>read_streaming\<close>'s loop ends.\<close>

datatype signal = Next | Return | Raise exn

definition debug_print :: "bool \<Rightarrow> out \<Rightarrow> out list" where
  "debug_print dbg e = (if dbg then [e] else [])"

text \<open>\<open>isinstance(content, dict) and content.get("type") == "text"\<close>.\<close>

fun is_text_block :: "json \<Rightarrow> bool" where
  "is_text_block (JObj c) = (py_get c ''type'' JNull = JStr ''text'')"
| "is_text_block v = False"

text \<open>\<open>content.get("text", "")\<close>, used only where \<open>is_text_block content\<close> holds.\<close>

fun block_text :: "json \<Rightarrow> json" where
  "block_text (JObj c) = py_get c ''text'' (JStr '''')"
| "block_text v = JStr ''''"

text \<open>The lines printed for the entries of a \<open>plan\<close> update.\<close>

fun plan_entry_prints :: "json list \<Rightarrow> out list" where
  "plan_entry_prints [] = []"
| "plan_entry_prints (JObj e # es) =
     Print_plan_entry (py_get e ''status'' (JStr ''?'')) (py_get e ''content'' (JStr ''?''))
       # plan_entry_prints es"
| "plan_entry_prints (v # es) = plan_entry_prints es"

text \<open>
  \<open>preview = text[:200] if text else ""\<close>: a str or a list can be sliced, any other
  true value raises.
\<close>

fun preview :: "json \<Rightarrow> json option" where
  "preview (JStr s) = Some (JStr (take 200 s))"
| "preview (JArr xs) = (if xs = [] then Some (JStr '''') else Some (JArr (take 200 xs)))"
| "preview v = (if truthy v then None else Some (JStr ''''))"

text \<open>One element of the \<open>content\<close> list of a \<open>tool_call_update\<close>.\<close>

fun tool_content_item :: "json \<Rightarrow> out list \<times> exn option" where
  "tool_content_item (JObj c) =
     (if py_get c ''type'' JNull = JStr ''content'' then
        (let inner = py_get c ''content'' (JObj []) in
         if is_text_block inner then
           (case preview (block_text inner) of
              None \<Rightarrow> ([], Some TypeError)
            | Some p \<Rightarrow> ([Print_tool_content p], None))
         else ([], None))
      else if py_get c ''type'' JNull = JStr ''diff'' then
        ([Print_tool_diff (py_get c ''path'' (JStr ''?''))], None)
      else ([], None))"
| "tool_content_item v = ([], None)"

fun tool_content_prints :: "json list \<Rightarrow> out list \<times> exn option" where
  "tool_content_prints [] = ([], None)"
| "tool_content_prints (c # cs) =
     (case tool_content_item c of
        (es, Some e) \<Rightarrow> (es, Some e)
      | (es, None) \<Rightarrow> (case tool_content_prints cs of (es', r) \<Rightarrow> (es @ es', r)))"

text \<open>
  \<open>names = [c.get("name", "?") for c in cmds if isinstance(c, dict)]\<close> and
  \<open>', '.join(names)\<close>, which raises unless every name is a str.
\<close>

fun command_names :: "json list \<Rightarrow> json list" where
  "command_names [] = []"
| "command_names (JObj c # cs) = py_get c ''name'' (JStr ''?'') # command_names cs"
| "command_names (v # cs) = command_names cs"

fun join_names :: "json list \<Rightarrow> string list option" where
  "join_names [] = Some []"
| "join_names (JStr s # ns) = (case join_names ns of None \<Rightarrow> None | Some ss \<Rightarrow> Some (s # ss))"
| "join_names (v # ns) = None"

text \<open>
  The branches on \<open>update_type\<close> for a \<open>session/update\<close> whose \<open>params.update\<close> is the
  dict \<open>u\<close>: what is printed, and the exception that ends it, if any.
\<close>

definition update_prints :: "bool \<Rightarrow> dict \<Rightarrow> out list \<times> exn option" where
  "update_prints dbg u =
     (let update_type = py_get u ''sessionUpdate'' JNull in
      if update_type = JStr ''agent_message_chunk'' then
        (let content = py_get u ''content'' (JObj []) in
         if is_text_block content then ([Print_agent_text (block_text content)], None)
         else ([Print_agent_chunk_raw (JObj u)], None))
      else if update_type = JStr ''thought_chunk'' then
        (let content = py_get u ''content'' (JObj []) in
         if is_text_block content then ([Print_thinking (block_text content)], None)
         else ([], None))
      else if update_type = JStr ''plan'' then
        (let entries = py_get u ''entries'' (JArr []) in
         case py_len entries of
           None \<Rightarrow> ([], Some TypeError)
         | Some k \<Rightarrow>
             (case py_iter entries of
                None \<Rightarrow> ([Print_plan k], Some TypeError)
              | Some es \<Rightarrow> (Print_plan k # plan_entry_prints es, None)))
      else if update_type = JStr ''tool_call'' then
        ([Print_tool_call (py_get u ''toolCallId'' (JStr ''?'')) (py_get u ''title'' (JStr ''?''))
            (py_get u ''kind'' (JStr '''')) (py_get u ''status'' (JStr ''?''))], None)
      else if update_type = JStr ''tool_call_update'' then
        (let tc_id = py_get u ''toolCallId'' (JStr ''?'');
             status = py_get u ''status'' (JStr '''');
             content_list = py_get u ''content'' (JArr []);
             head = (if truthy status then [Print_tool_update tc_id status] else [])
         in case py_iter content_list of
              None \<Rightarrow> (head, Some TypeError)
            | Some cs \<Rightarrow> (case tool_content_prints cs of (es, r) \<Rightarrow> (head @ es, r)))
      else if update_type = JStr ''available_commands_update'' then
        (let cmds = py_get u ''availableCommands'' (JArr []) in
         case py_iter cmds of
           None \<Rightarrow> ([], Some TypeError)
         | Some cs \<Rightarrow>
             (case join_names (command_names cs) of
                None \<Rightarrow> ([], Some TypeError)
              | Some names \<Rightarrow> ([Print_commands names], None)))
      else if update_type = JStr ''config_options_update'' then
        (debug_print dbg (Debug_config_options (JObj u)), None)
      else if update_type = JStr ''current_mode_update'' then
        ([Print_mode_update (py_get u ''currentModeId'' (JStr ''?''))], None)
      else ([Print_update update_type (JObj u)], None))"

text \<open>
  \<open>update = parsed.get("params", {}).get("update", {})\<close> and
  \<open>update.get("sessionUpdate")\<close>: both \<open>params\<close> and \<open>update\<close> have to be dicts.
\<close>

definition session_update :: "bool \<Rightarrow> dict \<Rightarrow> out list \<times> exn option" where
  "session_update dbg p =
     (case py_get p ''params'' (JObj []) of
        JObj params \<Rightarrow>
          (case py_get params ''update'' (JObj []) of
             JObj u \<Rightarrow> update_prints dbg u
           | _ \<Rightarrow> ([], Some AttributeError))
      | _ \<Rightarrow> ([], Some AttributeError))"

text \<open>\<open>kind in ("allow_once", "allow_always")\<close>.\<close>

definition is_allow_kind :: "json \<Rightarrow> bool" where
  "is_allow_kind kind = (kind = JStr ''allow_once'' \<or> kind = JStr ''allow_always'')"

text \<open>
  The loop over the options of a permission request: \<open>allow_option\<close> starts as \<open>None\<close>
  and is assigned at every dict option of an allow kind; the loop has no \<open>break\<close>.
\<close>

fun select_allow :: "dict option \<Rightarrow> json list \<Rightarrow> dict option" where
  "select_allow allow_option [] = allow_option"
| "select_allow allow_option (JObj opt # opts) =
     (if is_allow_kind (py_get opt ''kind'' (JStr ''''))
      then select_allow (Some opt) opts
      else select_allow allow_option opts)"
| "select_allow allow_option (v # opts) = select_allow allow_option opts"

fun option_prints :: "json list \<Rightarrow> out list" where
  "option_prints [] = []"
| "option_prints (JObj opt # opts) =
     Print_permission_option (py_get opt ''name'' (JStr ''?'')) (py_get opt ''kind'' (JStr ''''))
       # option_prints opts"
| "option_prints (v # opts) = option_prints opts"

text \<open>The \<open>session/request_permission\<close> branch: prints, stdin lines, exception.\<close>

definition request_permission :: "dict \<Rightarrow> out list \<times> sent list \<times> exn option" where
  "request_permission p =
     (case py_get p ''params'' (JObj []) of
        JObj perm_params \<Rightarrow>
          (case py_iter (py_get perm_params ''options'' (JArr [])) of
             None \<Rightarrow> ([Print_permission_request], [], Some TypeError)
           | Some options \<Rightarrow>
               (case select_allow None options of
                  Some allow_option \<Rightarrow>
                    if allow_option \<noteq> [] \<and> has_key ''id'' p then
                      (Print_permission_request # option_prints options
                         @ [Print_auto_allowing (py_get allow_option ''name'' JNull)],
                       [Permission_response (py_get p ''id'' JNull)
                          (py_get allow_option ''optionId'' (JStr ''''))],
                       None)
                    else (Print_permission_request # option_prints options, [], None)
                | None \<Rightarrow> (Print_permission_request # option_prints options, [], None)))
      | _ \<Rightarrow> ([], [], Some AttributeError))"

text \<open>
  The \<open>if\<close>/\<open>elif\<close> chain of \<open>read_streaming\<close> on a parsed message, after
  \<open>msg_count += 1\<close> (so \<open>msg_count\<close> here is the new count): what it prints, what it
  writes to stdin, and whether the loop goes on, the function returns, or an exception
  leaves it. A parsed value that is not a dict has no \<open>get\<close>.
\<close>

definition dispatch :: "bool \<Rightarrow> nat \<Rightarrow> json \<Rightarrow> out list \<times> sent list \<times> signal" where
  "dispatch dbg msg_count parsed =
     (case parsed of
        JObj p \<Rightarrow>
          (if py_get p ''method'' JNull = JStr ''session/update'' then
             (case session_update dbg p of
                (es, None) \<Rightarrow> (debug_print dbg (Debug_msg msg_count parsed) @ es, [], Next)
              | (es, Some e) \<Rightarrow> (debug_print dbg (Debug_msg msg_count parsed) @ es, [], Raise e))
           else if py_get p ''method'' JNull = JStr ''session/request_permission'' then
             (case request_permission p of
                (es, ws, None) \<Rightarrow> (debug_print dbg (Debug_msg msg_count parsed) @ es, ws, Next)
              | (es, ws, Some e) \<Rightarrow>
                  (debug_print dbg (Debug_msg msg_count parsed) @ es, ws, Raise e))
           else if has_key ''method'' p \<and> has_key ''id'' p then
             (debug_print dbg (Debug_msg msg_count parsed)
                @ [Print_incoming_request (py_get p ''method'' JNull) (py_get p ''id'' JNull)]
                @ debug_print dbg (Debug_params (py_get p ''params'' (JObj [])))
                @ [Print_responded_not_supported],
              [Method_not_supported (py_get p ''id'' JNull) (py_get p ''method'' JNull)],
              Next)
           else if has_key ''result'' p then
             (case py_get p ''result'' (JObj []) of
                JObj result \<Rightarrow>
                  if has_key ''stopReason'' result then
                    (debug_print dbg (Debug_msg msg_count parsed)
                       @ [Print_done (py_get result ''stopReason'' (JStr ''unknown'')) msg_count],
                     [], Return)
                  else
                    (debug_print dbg (Debug_msg msg_count parsed) @ [Print_result (JObj result)],
                     [], Next)
              | result \<Rightarrow>
                  (debug_print dbg (Debug_msg msg_count parsed) @ [Print_result result], [], Next))
           else if has_key ''error'' p then
             (debug_print dbg (Debug_msg msg_count parsed) @ [Print_error (py_get p ''error'' JNull)],
              [], Next)
           else
             (debug_print dbg (Debug_msg msg_count parsed) @ [Print_unknown_msg parsed], [], Next))
      | _ \<Rightarrow> (debug_print dbg (Debug_msg msg_count parsed), [], Raise AttributeError))"

section \<open>The process, the queue and the module's globals\<close>

text \<open>
  A line taken from \<open>_response_queue\<close>, as the loops see it after \<open>line.strip()\<close> and
  \<open>json.loads(line)\<close>: \<open>Parsed v\<close> when \<open>json.loads\<close> returns \<open>v\<close>, \<open>Unparsable s\<close> when
  the stripped text \<open>s\<close> is not a JSON document (\<open>json.loads\<close> raises \<open>JSONDecodeError\<close>
  on it). The empty text is not a JSON document either; for it the loops do not get as
  far as \<open>json.loads\<close>.
\<close>

datatype line = Unparsable string | Parsed json

datatype thread = Stdout_reader | Stderr_reader

datatype proc_call = Terminate | Wait | Kill

text \<open>
  The globals of the module and the child process. \<open>response_queue\<close> holds the lines
  the child will write to its stdout, in order, each with the time a \<open>get\<close> that follows
  the previous line has to wait for it; the stdout reader thread moves every line to
  \<open>_response_queue\<close> as it comes, so nothing reaches the queue before that thread is
  started. \<open>clock\<close> is \<open>time.time()\<close>. \<open>stdout\<close> is what the script has printed,
  \<open>stdin\<close> what it has written to the child, \<open>proc_calls\<close> the calls of
  \<open>proc.terminate\<close>, \<open>proc.wait\<close> and \<open>proc.kill\<close>. Writes to the child are taken to
  succeed, and the lines of its stderr, which the second thread prints, are left out.
\<close>

record state =
  response_queue :: "(real \<times> line) list"
  reader_started :: bool
  threads :: "thread list"
  debug_flag :: bool
  clock :: real
  stdout :: "out list"
  stdin :: "sent list"
  proc_calls :: "proc_call list"

definition print :: "out list \<Rightarrow> state \<Rightarrow> state" where
  "print es st = st\<lparr>stdout := stdout st @ es\<rparr>"

text \<open>\<open>debug(msg)\<close>: prints only when \<open>_debug\<close> is set.\<close>

definition debug :: "out \<Rightarrow> state \<Rightarrow> state" where
  "debug e st = print (debug_print (debug_flag st) e) st"

text \<open>
  \<open>_start_reader(proc)\<close>: returns at once when \<open>_reader_started\<close> is set, otherwise sets
  it and starts the two daemon threads.
\<close>

definition start_reader :: "state \<Rightarrow> state" where
  "start_reader st =
     (if reader_started st then st
      else st\<lparr>reader_started := True, threads := threads st @ [Stdout_reader, Stderr_reader]\<rparr>)"

text \<open>
  \<open>_response_queue.get(timeout=timeout)\<close>: \<open>ValueError\<close> for a negative timeout; the next
  line when it is there within \<open>timeout\<close> seconds; otherwise \<open>queue.Empty\<close> after
  \<open>timeout\<close> seconds, the line still to come.
\<close>

datatype got = Item line | Queue_empty | Get_raises exn

definition queue_get :: "int \<Rightarrow> state \<Rightarrow> got \<times> state" where
  "queue_get timeout st =
     (if timeout < 0 then (Get_raises ValueError, st)
      else if \<not> reader_started st then (Queue_empty, st\<lparr>clock := clock st + real_of_int timeout\<rparr>)
      else
        (case response_queue st of
           [] \<Rightarrow> (Queue_empty, st\<lparr>clock := clock st + real_of_int timeout\<rparr>)
         | (gap, l) # rest \<Rightarrow>
             if gap \<le> real_of_int timeout
             then (Item l, st\<lparr>response_queue := rest, clock := clock st + gap\<rparr>)
             else (Queue_empty,
                   st\<lparr>response_queue := (gap - real_of_int timeout, l) # rest,
                      clock := clock st + real_of_int timeout\<rparr>)))"

text \<open>\<open>send_jsonrpc(proc, method, params, request_id)\<close>.\<close>

definition send_jsonrpc :: "string \<Rightarrow> json \<Rightarrow> int \<Rightarrow> state \<Rightarrow> state" where
  "send_jsonrpc method params request_id st =
     debug (Debug_payload method request_id params)
       (print [Print_sent method request_id]
          (st\<lparr>stdin := stdin st @ [Request request_id method params]\<rparr>))"

section \<open>read_responses\<close>

text \<open>
  The loop of \<open>read_responses\<close>. A blank line goes back to \<open>get\<close> by \<open>continue\<close>, before
  \<open>timeout = 1\<close>; every other line, parsed or not, reaches that assignment.
\<close>

function read_responses_loop :: "int \<Rightarrow> json list \<Rightarrow> state \<Rightarrow> (exn + json list) \<times> state" where
  "read_responses_loop timeout responses st =
     (case queue_get timeout st of
        (Get_raises e, st1) \<Rightarrow> (Inl e, st1)
      | (Queue_empty, st1) \<Rightarrow> (Inr responses, st1)
      | (Item (Unparsable s), st1) \<Rightarrow>
          if s = [] then read_responses_loop timeout responses st1
          else read_responses_loop 1 responses (print [Print_raw s] st1)
      | (Item (Parsed parsed), st1) \<Rightarrow>
          read_responses_loop 1 (responses @ [parsed]) (debug (Debug_response parsed) st1))"
  by pat_completeness auto
termination
  by (relation "measure (\<lambda>(timeout, responses, st). length (response_queue st))")
     (auto simp: queue_get_def print_def debug_def split: if_splits list.splits)

definition read_responses :: "int \<Rightarrow> state \<Rightarrow> (exn + json list) \<times> state" where
  "read_responses timeout st = read_responses_loop timeout [] (start_reader st)"

section \<open>read_streaming\<close>

text \<open>
  The part of the loop body inside \<open>try\<close> once \<open>json.loads\<close> has returned; \<open>msg_count\<close>
  is the count after \<open>msg_count += 1\<close>.
\<close>

definition handle_message :: "nat \<Rightarrow> json \<Rightarrow> state \<Rightarrow> signal \<times> state" where
  "handle_message msg_count parsed st =
     (case dispatch (debug_flag st) msg_count parsed of
        (es, ws, sig) \<Rightarrow> (sig, st\<lparr>stdout := stdout st @ es, stdin := stdin st @ ws\<rparr>))"

text \<open>
  \<open>read_streaming\<close> returns \<open>None\<close> whether it leaves the loop by \<open>return\<close> (a result with
  \<open>stopReason\<close>) or by \<open>break\<close> (\<open>queue.Empty\<close>); the model names the two exits, and the
  exception when one leaves the function.
\<close>

datatype stream_exit = Done_returned | Timed_out | Raised exn

text \<open>\<open>read_streaming\<close> of \<open>scripts/test-acp.py\<close>.\<close>

function read_streaming_loop :: "int \<Rightarrow> nat \<Rightarrow> state \<Rightarrow> stream_exit \<times> state" where
  "read_streaming_loop timeout msg_count st =
     (case queue_get timeout st of
        (Get_raises e, st1) \<Rightarrow> (Raised e, st1)
      | (Queue_empty, st1) \<Rightarrow> (Timed_out, print [Print_timeout timeout msg_count] st1)
      | (Item (Unparsable s), st1) \<Rightarrow>
          if s = [] then read_streaming_loop timeout msg_count st1
          else read_streaming_loop timeout msg_count (print [Print_raw s] st1)
      | (Item (Parsed parsed), st1) \<Rightarrow>
          (case handle_message (Suc msg_count) parsed st1 of
             (Next, st2) \<Rightarrow> read_streaming_loop timeout (Suc msg_count) st2
           | (Return, st2) \<Rightarrow> (Done_returned, st2)
           | (Raise e, st2) \<Rightarrow> (Raised e, st2)))"
  by pat_completeness auto
termination
  by (relation "measure (\<lambda>(timeout, msg_count, st). length (response_queue st))")
     (auto simp: queue_get_def print_def handle_message_def split: if_splits list.splits prod.splits)

definition read_streaming :: "int \<Rightarrow> state \<Rightarrow> stream_exit \<times> state" where
  "read_streaming timeout st = read_streaming_loop timeout 0 (start_reader st)"

text \<open>
  \<open>read_streaming\<close> of \<open>.opencode/skills/acp/test-acp.py\<close>: the same body, with
  \<open>t_start\<close> and \<open>last_msg_time\<close> kept for the report printed on \<open>queue.Empty\<close> (elapsed
  time and time since the last parsed message; the two lines about \<open>proc.poll()\<close> and
  the queue size are not recorded).
\<close>

function read_streaming_acp_loop ::
    "int \<Rightarrow> nat \<Rightarrow> real \<Rightarrow> real \<Rightarrow> state \<Rightarrow> stream_exit \<times> state" where
  "read_streaming_acp_loop timeout msg_count t_start last_msg_time st =
     (case queue_get timeout st of
        (Get_raises e, st1) \<Rightarrow> (Raised e, st1)
      | (Queue_empty, st1) \<Rightarrow>
          (Timed_out,
           print [Print_timeout_acp timeout msg_count (clock st1 - t_start)
                    (clock st1 - last_msg_time)] st1)
      | (Item (Unparsable s), st1) \<Rightarrow>
          if s = [] then read_streaming_acp_loop timeout msg_count t_start last_msg_time st1
          else read_streaming_acp_loop timeout msg_count t_start last_msg_time
                 (print [Print_raw s] st1)
      | (Item (Parsed parsed), st1) \<Rightarrow>
          (case handle_message (Suc msg_count) parsed st1 of
             (Next, st2) \<Rightarrow>
               read_streaming_acp_loop timeout (Suc msg_count) t_start (clock st1) st2
           | (Return, st2) \<Rightarrow> (Done_returned, st2)
           | (Raise e, st2) \<Rightarrow> (Raised e, st2)))"
  by pat_completeness auto
termination
  by (relation "measure (\<lambda>(timeout, msg_count, t_start, last_msg_time, st).
                           length (response_queue st))")
     (auto simp: queue_get_def print_def handle_message_def split: if_splits list.splits prod.splits)

definition read_streaming_acp :: "int \<Rightarrow> state \<Rightarrow> stream_exit \<times> state" where
  "read_streaming_acp timeout st =
     (let st0 = start_reader st in read_streaming_acp_loop timeout 0 (clock st0) (clock st0) st0)"

section \<open>main\<close>

text \<open>The command line of \<open>scripts/test-acp.py\<close>.\<close>

record args =
  arg_model :: "string option"
  arg_mode :: "string option"
  arg_prompt :: string
  arg_debug :: bool
  arg_timeout :: int

text \<open>
  What \<open>main\<close> finds around it: the result of \<open>shutil.which("opencode")\<close>, the working
  directory, the lines the child is going to write, and whether the child exits within
  the five seconds \<open>main\<close> gives it after \<open>proc.terminate()\<close>.
\<close>

record env =
  opencode_bin :: "string option"
  cwd :: string
  peer_lines :: "(real \<times> line) list"
  exits_on_terminate :: bool

text \<open>
  The progress lines and summaries that \<open>main\<close> itself prints are not recorded, only
  whether the expressions they format raise.
\<close>

definition initialize_params :: json where
  "initialize_params =
     JObj [(''protocolVersion'', JInt 1),
           (''clientInfo'', JObj [(''name'', JStr ''test-acp''),
                                 (''title'', JStr ''ACP Test Script''),
                                 (''version'', JStr ''0.1.0'')]),
           (''clientCapabilities'',
              JObj [(''fs'', JObj [(''readTextFile'', JBool False),
                                  (''writeTextFile'', JBool False)]),
                    (''terminal'', JBool False)])]"

text \<open>
  Step 1 after the responses are in: \<open>responses[0].get("result", {})\<close>,
  \<open>init_result.get("agentInfo", {})\<close> and \<open>agent.get(...)\<close> each need a dict.
\<close>

definition initialize_summary :: "json list \<Rightarrow> exn option" where
  "initialize_summary responses =
     (case responses of
        JObj r # rest \<Rightarrow>
          (case py_get r ''result'' (JObj []) of
             JObj init_result \<Rightarrow>
               (case py_get init_result ''agentInfo'' (JObj []) of
                  JObj agent \<Rightarrow> None
                | _ \<Rightarrow> Some AttributeError)
           | _ \<Rightarrow> Some AttributeError)
      | _ \<Rightarrow> Some AttributeError)"

text \<open>\<open>v or {}\<close>.\<close>

definition or_empty_dict :: "json \<Rightarrow> json" where
  "or_empty_dict v = (if truthy v then v else JObj [])"

text \<open>
  \<open>info.get(key, []) if isinstance(info, dict) else info if isinstance(info, list)
  else []\<close>.
\<close>

fun available :: "json \<Rightarrow> string \<Rightarrow> json" where
  "available (JObj d) key = py_get d key (JArr [])"
| "available (JArr xs) key = JArr xs"
| "available v key = JArr []"

text \<open>
  The loop over \<open>config_opts\<close>: for a dict \<open>co\<close>, the comprehension iterates
  \<open>co.get('options', [])\<close>.
\<close>

fun config_options_raise :: "json list \<Rightarrow> bool" where
  "config_options_raise [] = False"
| "config_options_raise (JObj co # items) =
     (case py_iter (py_get co ''options'' (JArr [])) of
        None \<Rightarrow> True
      | Some opts \<Rightarrow> config_options_raise items)"
| "config_options_raise (v # items) = config_options_raise items"

text \<open>
  The summary printed for the result that holds \<open>sessionId\<close>: \<open>len\<close> of the available
  models and modes, then the config options when there are any.
\<close>

definition session_summary :: "dict \<Rightarrow> exn option" where
  "session_summary result =
     (let models_info = py_get result ''models'' (JObj []);
          modes_info = py_get result ''modes'' (JObj []);
          available_models = available models_info ''availableModels'';
          available_modes = available modes_info ''availableModes''
      in if py_len available_models = None then Some TypeError
         else if py_len available_modes = None then Some TypeError
         else
           (let config_opts = py_get result ''configOptions'' (JArr []) in
            if truthy config_opts then
              (case py_iter config_opts of
                 None \<Rightarrow> Some TypeError
               | Some items \<Rightarrow> if config_options_raise items then Some TypeError else None)
            else None))"

text \<open>
  The loop of step 2 over the responses: \<open>session_id\<close> (\<open>None\<close> when no result holds
  \<open>sessionId\<close>), or the exception raised while printing the summary.
\<close>

fun find_session :: "json list \<Rightarrow> exn + json" where
  "find_session [] = Inr JNull"
| "find_session (JObj resp # resps) =
     (case or_empty_dict (py_get resp ''result'' JNull) of
        JObj result \<Rightarrow>
          if has_key ''sessionId'' result then
            (case session_summary result of
               Some e \<Rightarrow> Inl e
             | None \<Rightarrow> Inr (py_get result ''sessionId'' JNull))
          else find_session resps
      | _ \<Rightarrow> find_session resps)"
| "find_session (v # resps) = find_session resps"

text \<open>\<open>if args.model:\<close> and \<open>if args.mode:\<close>: the option was given and is not empty.\<close>

fun given :: "string option \<Rightarrow> bool" where
  "given None = False"
| "given (Some s) = (s \<noteq> [])"

text \<open>
  Steps 3 and 4: when the option is given, send the request with \<open>req_id\<close>, read the
  responses (printing them raises nothing) and add one to \<open>req_id\<close>.
\<close>

definition set_model :: "args \<Rightarrow> json \<Rightarrow> int \<Rightarrow> state \<Rightarrow> exn option \<times> int \<times> state" where
  "set_model a session_id req_id st =
     (if given (arg_model a) then
        (case read_responses 10
                (send_jsonrpc ''session/set_model''
                   (JObj [(''sessionId'', session_id), (''modelId'', JStr (the (arg_model a)))])
                   req_id st) of
           (Inl e, st1) \<Rightarrow> (Some e, req_id, st1)
         | (Inr responses, st1) \<Rightarrow> (None, req_id + 1, st1))
      else (None, req_id, st))"

definition set_mode :: "args \<Rightarrow> json \<Rightarrow> int \<Rightarrow> state \<Rightarrow> exn option \<times> int \<times> state" where
  "set_mode a session_id req_id st =
     (if given (arg_mode a) then
        (case read_responses 10
                (send_jsonrpc ''session/set_mode''
                   (JObj [(''sessionId'', session_id), (''modeId'', JStr (the (arg_mode a)))])
                   req_id st) of
           (Inl e, st1) \<Rightarrow> (Some e, req_id, st1)
         | (Inr responses, st1) \<Rightarrow> (None, req_id + 1, st1))
      else (None, req_id, st))"

text \<open>Step 5: \<open>session/prompt\<close> with \<open>req_id\<close>, then \<open>read_streaming\<close>.\<close>

definition prompt :: "args \<Rightarrow> json \<Rightarrow> int \<Rightarrow> state \<Rightarrow> stream_exit \<times> state" where
  "prompt a session_id req_id st =
     read_streaming (arg_timeout a)
       (send_jsonrpc ''session/prompt''
          (JObj [(''sessionId'', session_id),
                 (''prompt'', JArr [JObj [(''type'', JStr ''text''),
                                          (''text'', JStr (arg_prompt a))]])])
          req_id st)"

text \<open>Steps 3 to 5, with \<open>req_id = 3\<close> at the start.\<close>

definition configure_and_prompt :: "args \<Rightarrow> json \<Rightarrow> state \<Rightarrow> exn option \<times> state" where
  "configure_and_prompt a session_id st =
     (case set_model a session_id 3 st of
        (Some e, req_id, st1) \<Rightarrow> (Some e, st1)
      | (None, req_id, st1) \<Rightarrow>
          (case set_mode a session_id req_id st1 of
             (Some e, req_id', st2) \<Rightarrow> (Some e, st2)
           | (None, req_id', st2) \<Rightarrow>
               (case prompt a session_id req_id' st2 of
                  (Raised e, st3) \<Rightarrow> (Some e, st3)
                | (ex, st3) \<Rightarrow> (None, st3))))"

text \<open>
  The \<open>try\<close> block of \<open>main\<close>: the exception that \<open>except Exception\<close> catches, if any,
  and the state when the block is left.
\<close>

definition main_try :: "args \<Rightarrow> string \<Rightarrow> state \<Rightarrow> exn option \<times> state" where
  "main_try a dir st =
     (case read_responses 10 (send_jsonrpc ''initialize'' initialize_params 1 st) of
        (Inl e, st1) \<Rightarrow> (Some e, st1)
      | (Inr responses, st1) \<Rightarrow>
          if responses = [] then (None, st1)
          else
            (case initialize_summary responses of
               Some e \<Rightarrow> (Some e, st1)
             | None \<Rightarrow>
                 (case read_responses 10
                         (send_jsonrpc ''session/new''
                            (JObj [(''cwd'', JStr dir), (''mcpServers'', JArr [])]) 2 st1) of
                    (Inl e, st2) \<Rightarrow> (Some e, st2)
                  | (Inr responses2, st2) \<Rightarrow>
                      if responses2 = [] then (None, st2)
                      else
                        (case find_session responses2 of
                           Inl e \<Rightarrow> (Some e, st2)
                         | Inr session_id \<Rightarrow>
                             if \<not> truthy session_id then (None, st2)
                             else configure_and_prompt a session_id st2))))"

text \<open>The module's globals as the script starts, and the child just spawned.\<close>

definition initial_state :: "bool \<Rightarrow> (real \<times> line) list \<Rightarrow> state" where
  "initial_state dbg lines =
     \<lparr>response_queue = lines, reader_started = False, threads = [], debug_flag = dbg,
      clock = 0, stdout = [], stdin = [], proc_calls = []\<rparr>"

text \<open>
  The \<open>finally\<close> block: \<open>proc.terminate()\<close>, \<open>proc.wait(timeout=5)\<close>, and on
  \<open>TimeoutExpired\<close> \<open>proc.kill()\<close> and \<open>proc.wait()\<close>.
\<close>

definition shutdown :: "bool \<Rightarrow> state \<Rightarrow> state" where
  "shutdown exits st =
     st\<lparr>proc_calls := proc_calls st
          @ (if exits then [Terminate, Wait] else [Terminate, Wait, Kill, Wait])\<rparr>"

text \<open>
  \<open>main\<close>: without an \<open>opencode\<close> binary it exits before a child exists; otherwise the
  \<open>try\<close> block runs and \<open>finally\<close> shuts the child down.
\<close>

definition main :: "args \<Rightarrow> env \<Rightarrow> state" where
  "main a e =
     (if given (opencode_bin e) then
        shutdown (exits_on_terminate e)
          (snd (main_try a (cwd e) (initial_state (arg_debug a) (peer_lines e))))
      else initial_state (arg_debug a) (peer_lines e))"

text \<open>The ids of the requests among the lines written to the child, in order.\<close>

fun request_ids :: "sent list \<Rightarrow> int list" where
  "request_ids [] = []"
| "request_ids (Request i m p # ws) = i # request_ids ws"
| "request_ids (w # ws) = request_ids ws"

section \<open>The test-case generation script\<close>

text \<open>
  \<open>test-gen-acp.py\<close> has the same \<open>_start_reader\<close>, \<open>send_jsonrpc\<close> and \<open>read_responses\<close>
  and its own \<open>read_streaming\<close>, which collects the text of the message chunks, answers
  no request of the child and leaves the loop by \<open>break\<close> on a true \<open>stopReason\<close>.
\<close>

definition gen_update :: "bool \<Rightarrow> dict \<Rightarrow> out list \<times> json list \<times> exn option" where
  "gen_update dbg p =
     (case py_get p ''params'' (JObj []) of
        JObj params \<Rightarrow>
          (case py_get params ''update'' (JObj []) of
             JObj u \<Rightarrow>
               (let update_type = py_get u ''sessionUpdate'' JNull in
                if update_type = JStr ''agent_message_chunk'' then
                  (let content = py_get u ''content'' (JObj []) in
                   if is_text_block content
                   then ([Print_agent_text (block_text content)], [block_text content], None)
                   else ([], [], None))
                else if update_type = JStr ''tool_call'' then
                  ([Print_tool_call_gen (py_get u ''title'' (JStr ''?''))
                      (py_get u ''status'' (JStr ''?''))], [], None)
                else if update_type = JStr ''available_commands_update'' then
                  (debug_print dbg Debug_available_commands, [], None)
                else (debug_print dbg (Debug_update update_type), [], None))
           | _ \<Rightarrow> ([], [], Some AttributeError))
      | _ \<Rightarrow> ([], [], Some AttributeError))"

text \<open>
  The chain of that \<open>read_streaming\<close> on a parsed message: prints, the texts appended to
  \<open>full_text\<close>, and how the pass ends (\<open>Return\<close> stands for its \<open>break\<close>).
\<close>

definition gen_dispatch :: "bool \<Rightarrow> nat \<Rightarrow> json \<Rightarrow> out list \<times> json list \<times> signal" where
  "gen_dispatch dbg msg_count parsed =
     (case parsed of
        JObj p \<Rightarrow>
          (if py_get p ''method'' JNull = JStr ''session/update'' then
             (case gen_update dbg p of
                (es, ts, None) \<Rightarrow> (debug_print dbg (Debug_msg msg_count parsed) @ es, ts, Next)
              | (es, ts, Some e) \<Rightarrow>
                  (debug_print dbg (Debug_msg msg_count parsed) @ es, ts, Raise e))
           else if has_key ''result'' p then
             (case py_get p ''result'' JNull of
                JObj result \<Rightarrow>
                  if truthy (py_get result ''stopReason'' JNull) then
                    (debug_print dbg (Debug_msg msg_count parsed)
                       @ [Print_stop (py_get result ''stopReason'' JNull)], [], Return)
                  else (debug_print dbg (Debug_msg msg_count parsed), [], Next)
              | _ \<Rightarrow> (debug_print dbg (Debug_msg msg_count parsed), [], Next))
           else if has_key ''error'' p then
             (debug_print dbg (Debug_msg msg_count parsed) @ [Print_error (py_get p ''error'' JNull)],
              [], Next)
           else (debug_print dbg (Debug_msg msg_count parsed), [], Next))
      | _ \<Rightarrow> (debug_print dbg (Debug_msg msg_count parsed), [], Raise AttributeError))"

text \<open>
  The loop; when it is left, \<open>"".join(full_text)\<close> raises unless every collected text is
  a str.
\<close>

definition join_text :: "json list \<Rightarrow> exn + string" where
  "join_text full_text =
     (case join_names full_text of None \<Rightarrow> Inl TypeError | Some ss \<Rightarrow> Inr (concat ss))"

function read_streaming_gen_loop ::
    "int \<Rightarrow> nat \<Rightarrow> json list \<Rightarrow> real \<Rightarrow> state \<Rightarrow> (exn + string) \<times> state" where
  "read_streaming_gen_loop timeout msg_count full_text t_start st =
     (case queue_get timeout st of
        (Get_raises e, st1) \<Rightarrow> (Inl e, st1)
      | (Queue_empty, st1) \<Rightarrow>
          (join_text full_text,
           print [Print_timeout_gen timeout msg_count (clock st1 - t_start)] st1)
      | (Item (Unparsable s), st1) \<Rightarrow>
          if s = [] then read_streaming_gen_loop timeout msg_count full_text t_start st1
          else read_streaming_gen_loop timeout msg_count full_text t_start
                 (print [Print_raw s] st1)
      | (Item (Parsed parsed), st1) \<Rightarrow>
          (case gen_dispatch (debug_flag st1) (Suc msg_count) parsed of
             (es, ts, Next) \<Rightarrow>
               read_streaming_gen_loop timeout (Suc msg_count) (full_text @ ts) t_start
                 (print es st1)
           | (es, ts, Return) \<Rightarrow> (join_text (full_text @ ts), print es st1)
           | (es, ts, Raise e) \<Rightarrow> (Inl e, print es st1)))"
  by pat_completeness auto
termination
  by (relation "measure (\<lambda>(timeout, msg_count, full_text, t_start, st).
                           length (response_queue st))")
     (auto simp: queue_get_def print_def split: if_splits list.splits)

definition read_streaming_gen :: "int \<Rightarrow> state \<Rightarrow> (exn + string) \<times> state" where
  "read_streaming_gen timeout st =
     (let st0 = start_reader st in read_streaming_gen_loop timeout 0 [] (clock st0) st0)"

text \<open>
  Its command line (\<open>--model\<close> and \<open>--mode\<close> have defaults), and what it finds around it.
  \<open>prompt_text\<close> is the prompt that \<open>build_prompt\<close> makes from the WSTG file, \<open>None\<close> when
  the script stops before it spawns the child (the file or the binary is missing).
\<close>

record gen_args =
  gen_attack :: string
  gen_model :: string
  gen_mode :: string
  gen_debug :: bool

record gen_env =
  prompt_text :: "string option"
  project_root :: string
  gen_peer_lines :: "(real \<times> line) list"
  gen_exits_on_terminate :: bool

text \<open>
  Step 2: \<open>resp.get("result") or {}\<close> needs every response up to the one with
  \<open>sessionId\<close> to be a dict.
\<close>

fun gen_find_session :: "json list \<Rightarrow> exn + json" where
  "gen_find_session [] = Inr JNull"
| "gen_find_session (JObj resp # resps) =
     (case or_empty_dict (py_get resp ''result'' JNull) of
        JObj result \<Rightarrow>
          if has_key ''sessionId'' result then Inr (py_get result ''sessionId'' JNull)
          else gen_find_session resps
      | _ \<Rightarrow> gen_find_session resps)"
| "gen_find_session (v # resps) = Inl AttributeError"

text \<open>
  Steps 3 and 4 print \<open>ERROR\<close> or \<open>OK\<close> for each response: \<open>"error" in resp\<close> raises
  for a response that is no str, list or dict, and where it holds \<open>resp['error']\<close>
  raises unless the response is a dict.
\<close>

fun contains_error :: "string \<Rightarrow> bool" where
  "contains_error [] = False"
| "contains_error (c # cs) = (take 5 (c # cs) = ''error'' \<or> contains_error cs)"

fun report_raises_at :: "json \<Rightarrow> bool" where
  "report_raises_at (JObj resp) = False"
| "report_raises_at (JArr xs) = (JStr ''error'' \<in> set xs)"
| "report_raises_at (JStr s) = contains_error s"
| "report_raises_at v = True"

fun report_raises :: "json list \<Rightarrow> bool" where
  "report_raises [] = False"
| "report_raises (resp # resps) = (report_raises_at resp \<or> report_raises resps)"

definition gen_set ::
    "string \<Rightarrow> json \<Rightarrow> int \<Rightarrow> state \<Rightarrow> exn option \<times> int \<times> state" where
  "gen_set method params req_id st =
     (case read_responses 10 (send_jsonrpc method params req_id st) of
        (Inl e, st1) \<Rightarrow> (Some e, req_id, st1)
      | (Inr responses, st1) \<Rightarrow>
          if report_raises responses then (Some TypeError, req_id, st1)
          else (None, req_id + 1, st1))"

definition gen_configure_and_prompt ::
    "gen_args \<Rightarrow> string \<Rightarrow> json \<Rightarrow> state \<Rightarrow> exn option \<times> state" where
  "gen_configure_and_prompt a prompt_txt session_id st =
     (case gen_set ''session/set_model''
             (JObj [(''sessionId'', session_id), (''modelId'', JStr (gen_model a))]) 3 st of
        (Some e, req_id, st1) \<Rightarrow> (Some e, st1)
      | (None, req_id, st1) \<Rightarrow>
          (case gen_set ''session/set_mode''
                  (JObj [(''sessionId'', session_id), (''modeId'', JStr (gen_mode a))])
                  req_id st1 of
             (Some e, req_id', st2) \<Rightarrow> (Some e, st2)
           | (None, req_id', st2) \<Rightarrow>
               (case read_streaming_gen 120
                       (send_jsonrpc ''session/prompt''
                          (JObj [(''sessionId'', session_id),
                                 (''prompt'', JArr [JObj [(''type'', JStr ''text''),
                                                          (''text'', JStr prompt_txt)]])])
                          req_id' st2) of
                  (Inl e, st3) \<Rightarrow> (Some e, st3)
                | (Inr response_text, st3) \<Rightarrow> (None, st3))))"

definition gen_initialize_params :: json where
  "gen_initialize_params =
     JObj [(''protocolVersion'', JInt 1),
           (''clientInfo'', JObj [(''name'', JStr ''test-gen-acp''),
                                 (''title'', JStr ''TestCase Gen Test''),
                                 (''version'', JStr ''0.0.1'')]),
           (''clientCapabilities'',
              JObj [(''fs'', JObj [(''readTextFile'', JBool False),
                                  (''writeTextFile'', JBool False)]),
                    (''terminal'', JBool False)])]"

text \<open>The \<open>try\<close> block of its \<open>main\<close>.\<close>

definition gen_main_try ::
    "gen_args \<Rightarrow> string \<Rightarrow> string \<Rightarrow> state \<Rightarrow> exn option \<times> state" where
  "gen_main_try a prompt_txt dir st =
     (case read_responses 10 (send_jsonrpc ''initialize'' gen_initialize_params 1 st) of
        (Inl e, st1) \<Rightarrow> (Some e, st1)
      | (Inr responses, st1) \<Rightarrow>
          if responses = [] then (None, st1)
          else
            (case initialize_summary responses of
               Some e \<Rightarrow> (Some e, st1)
             | None \<Rightarrow>
                 (case read_responses 10
                         (send_jsonrpc ''session/new''
                            (JObj [(''cwd'', JStr dir), (''mcpServers'', JArr [])]) 2 st1) of
                    (Inl e, st2) \<Rightarrow> (Some e, st2)
                  | (Inr responses2, st2) \<Rightarrow>
                      (case gen_find_session responses2 of
                         Inl e \<Rightarrow> (Some e, st2)
                       | Inr session_id \<Rightarrow>
                           if \<not> truthy session_id then (None, st2)
                           else gen_configure_and_prompt a prompt_txt session_id st2))))"

definition gen_main :: "gen_args \<Rightarrow> gen_env \<Rightarrow> state" where
  "gen_main a e =
     (case prompt_text e of
        None \<Rightarrow> initial_state (gen_debug a) (gen_peer_lines e)
      | Some prompt_txt \<Rightarrow>
          shutdown (gen_exits_on_terminate e)
            (snd (gen_main_try a prompt_txt (project_root e)
                    (initial_state (gen_debug a) (gen_peer_lines e)))))"

section \<open>Notions used in the statements\<close>


text \<open>The number of parsed messages among some lines: what they add to \<open>msg_count\<close>.\<close>

fun parsed_count :: "(real \<times> line) list \<Rightarrow> nat" where
  "parsed_count [] = 0"
| "parsed_count ((g, Parsed v) # ls) = Suc (parsed_count ls)"
| "parsed_count ((g, Unparsable s) # ls) = parsed_count ls"

text \<open>
  What the streaming loop prints, and what it writes to the child, for some lines taken
  one after the other, starting with \<open>msg_count = n\<close>.
\<close>

fun line_prints :: "bool \<Rightarrow> nat \<Rightarrow> (real \<times> line) list \<Rightarrow> out list" where
  "line_prints dbg n [] = []"
| "line_prints dbg n ((g, Unparsable s) # ls) =
     (if s = [] then [] else [Print_raw s]) @ line_prints dbg n ls"
| "line_prints dbg n ((g, Parsed v) # ls) =
     fst (dispatch dbg (Suc n) v) @ line_prints dbg (Suc n) ls"

fun line_writes :: "bool \<Rightarrow> nat \<Rightarrow> (real \<times> line) list \<Rightarrow> sent list" where
  "line_writes dbg n [] = []"
| "line_writes dbg n ((g, Unparsable s) # ls) = line_writes dbg n ls"
| "line_writes dbg n ((g, Parsed v) # ls) =
     fst (snd (dispatch dbg (Suc n) v)) @ line_writes dbg (Suc n) ls"


text \<open>The \<open>stopReason\<close> inside the \<open>result\<close> of a message, when \<open>result\<close> is a dict that has one.\<close>

definition stop_reason :: "dict \<Rightarrow> json option" where
  "stop_reason p =
     (case map_of p ''result'' of Some (JObj result) \<Rightarrow> map_of result ''stopReason'' | _ \<Rightarrow> None)"

text \<open>
  A message that gets as far as the \<open>elif "result" in parsed\<close> branch: its method is
  neither of the two the chain asks for by name, and it does not have both \<open>method\<close>
  and \<open>id\<close>.
\<close>

definition result_branch :: "dict \<Rightarrow> bool" where
  "result_branch p =
     (py_get p ''method'' JNull \<noteq> JStr ''session/update'' \<and>
      py_get p ''method'' JNull \<noteq> JStr ''session/request_permission'' \<and>
      \<not> (has_key ''method'' p \<and> has_key ''id'' p) \<and>
      has_key ''result'' p)"

text \<open>A message on which \<open>read_streaming\<close> returns.\<close>

fun completes :: "json \<Rightarrow> bool" where
  "completes (JObj p) = (result_branch p \<and> stop_reason p \<noteq> None)"
| "completes v = False"


text \<open>
  A dict option of an allow kind, and the \<open>optionId\<close> the answer carries for it.
\<close>

fun is_allow_option :: "json \<Rightarrow> bool" where
  "is_allow_option (JObj opt) = is_allow_kind (py_get opt ''kind'' (JStr ''''))"
| "is_allow_option v = False"

fun option_id :: "json \<Rightarrow> json" where
  "option_id (JObj opt) = py_get opt ''optionId'' (JStr '''')"
| "option_id v = JStr ''''"

text \<open>The parsed values among some lines, in order.\<close>

fun collected :: "(real \<times> line) list \<Rightarrow> json list" where
  "collected [] = []"
| "collected ((g, Parsed v) # ls) = v # collected ls"
| "collected ((g, Unparsable s) # ls) = collected ls"

subsection \<open>Messages used as examples\<close>

definition chunk :: "string \<Rightarrow> json" where
  "chunk s =
     JObj [(''jsonrpc'', JStr ''2.0''), (''method'', JStr ''session/update''),
           (''params'', JObj [(''update'',
              JObj [(''sessionUpdate'', JStr ''agent_message_chunk''),
                    (''content'', JObj [(''type'', JStr ''text''), (''text'', JStr s)])])])]"

definition stop_response :: "int \<Rightarrow> json" where
  "stop_response i =
     JObj [(''jsonrpc'', JStr ''2.0''), (''id'', JInt i),
           (''result'', JObj [(''stopReason'', JStr ''end_turn'')])]"

definition permission_option :: "string \<Rightarrow> string \<Rightarrow> json" where
  "permission_option i kind =
     JObj [(''optionId'', JStr i), (''name'', JStr i), (''kind'', JStr kind)]"

definition permission_request :: "int \<Rightarrow> json list \<Rightarrow> json" where
  "permission_request i opts =
     JObj [(''jsonrpc'', JStr ''2.0''), (''id'', JInt i),
           (''method'', JStr ''session/request_permission''),
           (''params'', JObj [(''options'', JArr opts)])]"

definition no_args :: args where
  "no_args = \<lparr>arg_model = None, arg_mode = None, arg_prompt = ''Say hello in one sentence.'',
              arg_debug = False, arg_timeout = 60\<rparr>"

declare read_streaming_loop.simps [simp del]
declare read_streaming_acp_loop.simps [simp del]
declare read_responses_loop.simps [simp del]
declare read_streaming_gen_loop.simps [simp del]

section \<open>Lemmas about the loops\<close>

lemmas run_defs = dispatch_def session_update_def update_prints_def request_permission_def
  py_get_def has_key_def debug_print_def is_allow_kind_def handle_message_def queue_get_def
  print_def debug_def start_reader_def initial_state_def read_streaming_def
  read_streaming_acp_def read_responses_def send_jsonrpc_def stop_reason_def result_branch_def
  chunk_def stop_response_def permission_option_def permission_request_def no_args_def Let_def




lemma queue_get_item:
  "reader_started st \<Longrightarrow> 0 \<le> timeout \<Longrightarrow> response_queue st = (g, l) # q \<Longrightarrow>
   g \<le> real_of_int timeout \<Longrightarrow>
   queue_get timeout st = (Item l, st\<lparr>response_queue := q, clock := clock st + g\<rparr>)"
  by (simp add: queue_get_def)

lemma queue_get_late:
  "0 \<le> timeout \<Longrightarrow> response_queue st = [] \<or> real_of_int timeout < fst (hd (response_queue st)) \<Longrightarrow>
   fst (queue_get timeout st) = Queue_empty \<and>
   clock (snd (queue_get timeout st)) = clock st + real_of_int timeout \<and>
   stdout (snd (queue_get timeout st)) = stdout st \<and>
   stdin (snd (queue_get timeout st)) = stdin st \<and>
   proc_calls (snd (queue_get timeout st)) = proc_calls st"
  by (auto simp: queue_get_def split: list.splits)

lemma handle_message_eq:
  "handle_message n v st =
     (snd (snd (dispatch (debug_flag st) n v)),
      st\<lparr>stdout := stdout st @ fst (dispatch (debug_flag st) n v),
         stdin := stdin st @ fst (snd (dispatch (debug_flag st) n v))\<rparr>)"
  by (simp add: handle_message_def split: prod.splits)


lemma line_prints_append:
  "line_prints dbg n (xs @ ys) = line_prints dbg n xs @ line_prints dbg (n + parsed_count xs) ys"
  by (induction dbg n xs rule: line_prints.induct) simp_all

lemma line_writes_append:
  "line_writes dbg n (xs @ ys) = line_writes dbg n xs @ line_writes dbg (n + parsed_count xs) ys"
  by (induction dbg n xs rule: line_writes.induct) simp_all







section \<open>When the turn is complete\<close>

lemma dispatch_return_iff: "snd (snd (dispatch dbg n v)) = Return \<longleftrightarrow> completes v"
proof (cases v)
  case (JObj p)
  show ?thesis unfolding JObj
    by (cases "session_update dbg p"; cases "request_permission p")
       (auto simp: dispatch_def result_branch_def stop_reason_def has_key_def py_get_def
          split: option.splits json.splits prod.splits)
qed (simp_all add: dispatch_def)

lemma streaming_done_only:
  "response_queue st = q \<Longrightarrow> fst (read_streaming_loop timeout n st) = Done_returned \<Longrightarrow>
   \<exists>g v. (g, Parsed v) \<in> set q \<and> completes v"
proof (induction q arbitrary: st n)
  case Nil
  from Nil.prems(2) show ?case
    by (subst (asm) read_streaming_loop.simps)
       (auto simp: queue_get_def Nil.prems(1) split: if_splits)
next
  case (Cons x q)
  obtain g l where x: "x = (g, l)" by (cases x)
  show ?case
  proof (cases "0 \<le> timeout \<and> reader_started st \<and> g \<le> real_of_int timeout")
    case False
    with Cons.prems x show ?thesis
      by (subst (asm) read_streaming_loop.simps)
         (auto simp: queue_get_def split: if_splits)
  next
    case True
    let ?st1 = "st\<lparr>response_queue := q, clock := clock st + g\<rparr>"
    have get: "queue_get timeout st = (Item l, ?st1)"
      using True Cons.prems(1) x by (intro queue_get_item) simp_all
    show ?thesis
    proof (cases l)
      case (Unparsable s)
      from Cons.prems(2) have
        "fst (read_streaming_loop timeout n
               (if s = [] then ?st1 else print [Print_raw s] ?st1)) = Done_returned"
        by (subst (asm) read_streaming_loop.simps) (simp add: get Unparsable split: if_splits)
      moreover have "response_queue (if s = [] then ?st1 else print [Print_raw s] ?st1) = q"
        by (simp add: print_def)
      ultimately have "\<exists>g v. (g, Parsed v) \<in> set q \<and> completes v"
        using Cons.IH by blast
      then show ?thesis by auto
    next
      case (Parsed v)
      let ?st2 = "snd (handle_message (Suc n) v ?st1)"
      have q2: "response_queue ?st2 = q" by (simp add: handle_message_eq)
      show ?thesis
      proof (cases "snd (snd (dispatch (debug_flag st) (Suc n) v))")
        case Next
        with Cons.prems(2) have "fst (read_streaming_loop timeout (Suc n) ?st2) = Done_returned"
          by (subst (asm) read_streaming_loop.simps) (simp add: get Parsed handle_message_eq)
        with q2 have "\<exists>g v. (g, Parsed v) \<in> set q \<and> completes v"
          using Cons.IH by blast
        then show ?thesis by auto
      next
        case Return
        then have "completes v" using dispatch_return_iff by blast
        then show ?thesis using x Parsed by auto
      next
        case (Raise e)
        with Cons.prems(2) show ?thesis
          by (subst (asm) read_streaming_loop.simps) (simp add: get Parsed handle_message_eq)
      qed
    qed
  qed
qed

text \<open>
  C1, as the code has it. \<open>read_streaming\<close> is not given the id of the prompt request and
  looks at no id. Handling a message makes it return exactly when the message reaches
  the \<open>result\<close> branch and its \<open>result\<close> is a dict that holds \<open>stopReason\<close>, whatever
  its id; a message in that branch without \<open>stopReason\<close> leaves the loop running; and
  \<open>read_streaming\<close> returns by that exit only when such a message was among the lines
  of the child.
\<close>

theorem completion_by_stop_reason:
  "(snd (snd (dispatch dbg n v)) = Return \<longleftrightarrow> completes v) \<and>
   (result_branch p \<and> stop_reason p = None \<longrightarrow> snd (snd (dispatch dbg n (JObj p))) = Next) \<and>
   (fst (read_streaming timeout st) = Done_returned \<longrightarrow>
      (\<exists>g v. (g, Parsed v) \<in> set (response_queue st) \<and> completes v))"
proof -
  have a: "snd (snd (dispatch dbg n v)) = Return \<longleftrightarrow> completes v"
    by (rule dispatch_return_iff)
  have b: "result_branch p \<and> stop_reason p = None \<longrightarrow> snd (snd (dispatch dbg n (JObj p))) = Next"
    by (auto simp: dispatch_def result_branch_def stop_reason_def has_key_def py_get_def
          split: option.splits json.splits prod.splits)
  have "response_queue (start_reader st) = response_queue st"
    by (simp add: start_reader_def)
  then have c: "fst (read_streaming timeout st) = Done_returned \<longrightarrow>
      (\<exists>g v. (g, Parsed v) \<in> set (response_queue st) \<and> completes v)"
    unfolding read_streaming_def using streaming_done_only by blast
  from a b c show ?thesis by blast
qed

theorem completion_by_stop_reason_witness:
  "result_branch [(''id'', JInt 3), (''result'', JObj [])] \<and>
   stop_reason [(''id'', JInt 3), (''result'', JObj [])] = None \<and>
   snd (snd (dispatch False 1 (JObj [(''id'', JInt 3), (''result'', JObj [])]))) = Next \<and>
   fst (read_streaming 60 (initial_state False [(1, Parsed (stop_response 99))])) = Done_returned \<and>
   completes (stop_response 99)"
  using completion_by_stop_reason [of False 1 "stop_response 99"
      "[(''id'', JInt 3), (''result'', JObj [])]" 60
      "initial_state False [(1, Parsed (stop_response 99))]"]
  by (simp add: run_defs read_streaming_loop.simps)

text \<open>
  C1 as stated fails: after the prompt request with id 3, a response with id 99 that
  carries a \<open>stopReason\<close> ends the turn.
\<close>

theorem completion_other_id_counterexample:
  "fst (prompt no_args (JStr ''s1'') 3 (initial_state False [(1, Parsed (stop_response 99))]))
     = Done_returned \<and>
   request_ids (stdin (snd (prompt no_args (JStr ''s1'') 3
      (initial_state False [(1, Parsed (stop_response 99))])))) = [3] \<and>
   stop_response 99 =
     JObj [(''jsonrpc'', JStr ''2.0''), (''id'', JInt 99),
           (''result'', JObj [(''stopReason'', JStr ''end_turn'')])]"
  by (simp add: prompt_def run_defs read_streaming_loop.simps)

section \<open>Messages with a method and an id\<close>

text \<open>
  C2, as the code has it. The chain looks at the name of the method first. A message
  with both \<open>method\<close> and \<open>id\<close> is answered with the method-not-supported error unless
  its method is \<open>session/request_permission\<close>, which goes to the permission branch, or
  \<open>session/update\<close>, which is handled as a notification: nothing is written back.
\<close>

theorem requests_by_method:
  assumes "has_key ''method'' p" and "has_key ''id'' p"
  shows "fst (snd (dispatch dbg n (JObj p))) =
           (if py_get p ''method'' JNull = JStr ''session/update'' then []
            else if py_get p ''method'' JNull = JStr ''session/request_permission''
              then fst (snd (request_permission p))
            else [Method_not_supported (py_get p ''id'' JNull) (py_get p ''method'' JNull)])"
  using assms
  by (cases "session_update dbg p"; cases "request_permission p")
     (auto simp: dispatch_def split: option.splits)

theorem requests_by_method_witness:
  "has_key ''method'' [(''id'', JInt 4), (''method'', JStr ''fs/read_text_file'')] \<and>
   has_key ''id'' [(''id'', JInt 4), (''method'', JStr ''fs/read_text_file'')] \<and>
   fst (snd (dispatch False 1 (JObj [(''id'', JInt 4), (''method'', JStr ''fs/read_text_file'')])))
     = [Method_not_supported (JInt 4) (JStr ''fs/read_text_file'')]"
proof -
  let ?p = "[(''id'', JInt 4), (''method'', JStr ''fs/read_text_file'')]"
  have h1: "has_key ''method'' ?p" by (simp add: has_key_def)
  have h2: "has_key ''id'' ?p" by (simp add: has_key_def)
  show ?thesis using requests_by_method [OF h1 h2, of False 1] h1 h2
    by (simp add: py_get_def)
qed

text \<open>
  C2 as stated fails: a \<open>session/update\<close> that carries an id is printed like any other
  update and gets no reply.
\<close>

theorem update_with_id_counterexample:
  "dispatch False 1
     (JObj [(''jsonrpc'', JStr ''2.0''), (''id'', JInt 7), (''method'', JStr ''session/update''),
            (''params'', JObj [(''update'',
               JObj [(''sessionUpdate'', JStr ''agent_message_chunk''),
                     (''content'', JObj [(''type'', JStr ''text''), (''text'', JStr ''x'')])])])])
     = ([Print_agent_text (JStr ''x'')], [], Next)"
  by (simp add: run_defs)

section \<open>Answering a permission request\<close>

lemma allow_option_dict:
  "is_allow_option v \<Longrightarrow> \<exists>opt. v = JObj opt \<and> opt \<noteq> []"
  by (cases v) (auto simp: is_allow_kind_def py_get_def)

lemma select_allow_last:
  "filter is_allow_option opts \<noteq> [] \<Longrightarrow>
   \<exists>opt. last (filter is_allow_option opts) = JObj opt \<and> opt \<noteq> [] \<and>
         select_allow cur opts = Some opt"
proof (induction cur opts rule: select_allow.induct)
  case (2 allow_option opt opts)
  show ?case
  proof (cases "filter is_allow_option opts = []")
    case True
    have none: "select_allow c opts = c" for c
      using True by (induction c opts rule: select_allow.induct) (auto split: if_splits)
    from True 2(3) have allow: "is_allow_kind (py_get opt ''kind'' (JStr ''''))"
      by (auto split: if_splits)
    then have "opt \<noteq> []" by (auto simp: is_allow_kind_def py_get_def)
    with True allow none show ?thesis by simp
  next
    case False
    then show ?thesis using 2 by (auto split: if_splits)
  qed
qed auto

lemma select_allow_none:
  "filter is_allow_option opts = [] \<Longrightarrow> select_allow cur opts = cur"
  by (induction cur opts rule: select_allow.induct) (auto split: if_splits)

text \<open>
  C3, as the code has it. The loop over the options assigns \<open>allow_option\<close> at every
  dict option of kind \<open>allow_once\<close> or \<open>allow_always\<close> and does not stop at the first.
  So for a request with an id whose options are a list with at least one such option,
  the answer written to the child selects the last of them in list order: it carries the
  id of the request and that option's \<open>optionId\<close>. With a single allow option, last and
  first are the same.
\<close>

theorem permission_last_allow:
  assumes "py_get p ''method'' JNull = JStr ''session/request_permission''"
    and "has_key ''id'' p"
    and "py_get p ''params'' (JObj []) = JObj params"
    and "py_get params ''options'' (JArr []) = JArr opts"
    and "filter is_allow_option opts \<noteq> []"
  shows "snd (dispatch dbg n (JObj p)) =
           ([Permission_response (py_get p ''id'' JNull)
               (option_id (last (filter is_allow_option opts)))], Next)"
proof -
  from select_allow_last [OF assms(5), of None] obtain opt where
    opt: "last (filter is_allow_option opts) = JObj opt" "opt \<noteq> []"
      "select_allow None opts = Some opt" by blast
  show ?thesis
    using assms(1-4) opt
    by (simp add: dispatch_def request_permission_def)
qed

theorem permission_last_allow_witness:
  "py_get [(''id'', JInt 7), (''method'', JStr ''session/request_permission''),
           (''params'', JObj [(''options'', JArr [permission_option ''once'' ''allow_once'',
               permission_option ''no'' ''reject_once''])])] ''method'' JNull
     = JStr ''session/request_permission'' \<and>
   has_key ''id'' [(''id'', JInt 7), (''method'', JStr ''session/request_permission''),
           (''params'', JObj [(''options'', JArr [permission_option ''once'' ''allow_once'',
               permission_option ''no'' ''reject_once''])])] \<and>
   py_get [(''id'', JInt 7), (''method'', JStr ''session/request_permission''),
           (''params'', JObj [(''options'', JArr [permission_option ''once'' ''allow_once'',
               permission_option ''no'' ''reject_once''])])] ''params'' (JObj [])
     = JObj [(''options'', JArr [permission_option ''once'' ''allow_once'',
               permission_option ''no'' ''reject_once''])] \<and>
   py_get [(''options'', JArr [permission_option ''once'' ''allow_once'',
               permission_option ''no'' ''reject_once''])] ''options'' (JArr [])
     = JArr [permission_option ''once'' ''allow_once'', permission_option ''no'' ''reject_once''] \<and>
   filter is_allow_option
     [permission_option ''once'' ''allow_once'', permission_option ''no'' ''reject_once''] \<noteq> [] \<and>
   snd (dispatch False 1 (JObj [(''id'', JInt 7), (''method'', JStr ''session/request_permission''),
           (''params'', JObj [(''options'', JArr [permission_option ''once'' ''allow_once'',
               permission_option ''no'' ''reject_once''])])]))
     = ([Permission_response (JInt 7) (JStr ''once'')], Next)"
proof -
  let ?opts = "[permission_option ''once'' ''allow_once'', permission_option ''no'' ''reject_once'']"
  let ?params = "[(''options'', JArr ?opts)]"
  let ?p = "[(''id'', JInt 7), (''method'', JStr ''session/request_permission''),
           (''params'', JObj ?params)]"
  have h1: "py_get ?p ''method'' JNull = JStr ''session/request_permission''"
    by (simp add: py_get_def)
  have h2: "has_key ''id'' ?p" by (simp add: has_key_def)
  have h3: "py_get ?p ''params'' (JObj []) = JObj ?params" by (simp add: py_get_def)
  have h4: "py_get ?params ''options'' (JArr []) = JArr ?opts" by (simp add: py_get_def)
  have h5: "filter is_allow_option ?opts \<noteq> []"
    by (simp add: run_defs)
  show ?thesis
    using permission_last_allow [OF h1 h2 h3 h4 h5, of False 1] h1 h2 h3 h4 h5
    by (simp add: run_defs)
qed

text \<open>
  C3 as stated fails: with \<open>allow_once\<close> before \<open>allow_always\<close>, the answer selects the
  second, while the first allow option is the first.
\<close>

theorem permission_first_allow_counterexample:
  "fst (snd (dispatch False 1
      (permission_request 7 [permission_option ''once'' ''allow_once'',
                             permission_option ''always'' ''allow_always'',
                             permission_option ''no'' ''reject_once''])))
     = [Permission_response (JInt 7) (JStr ''always'')] \<and>
   option_id (hd (filter is_allow_option
      [permission_option ''once'' ''allow_once'', permission_option ''always'' ''allow_always'',
       permission_option ''no'' ''reject_once''])) = JStr ''once''"
  by (simp add: run_defs)

section \<open>A permission request without an allow option\<close>

text \<open>
  C4. The code at a request that offers only reject options: the branch prints the
  options and writes nothing; \<open>read_streaming\<close> on that line alone leaves the child
  without any answer. The branch for every other request with an id does answer.
\<close>

theorem permission_without_allow_unanswered:
  "snd (dispatch False 1
      (permission_request 5 [permission_option ''no'' ''reject_once'',
                             permission_option ''never'' ''reject_always'']))
     = ([], Next) \<and>
   stdin (snd (read_streaming 60 (initial_state False
      [(1, Parsed (permission_request 5 [permission_option ''no'' ''reject_once'',
                                          permission_option ''never'' ''reject_always'']))])))
     = [] \<and>
   fst (snd (dispatch False 1
      (JObj [(''jsonrpc'', JStr ''2.0''), (''id'', JInt 5), (''method'', JStr ''fs/read_text_file'')])))
     = [Method_not_supported (JInt 5) (JStr ''fs/read_text_file'')]"
  by (simp add: run_defs read_streaming_loop.simps)

section \<open>Updates are handled in the order of arrival\<close>








section \<open>Lines that are not JSON\<close>




section \<open>The streaming timeout\<close>




section \<open>Starting the reader threads\<close>

text \<open>
  C8. However often \<open>_start_reader\<close> is called, the outcome is that of a single call:
  every call after the first changes nothing, and from the state in which the script
  starts exactly one stdout reader and one stderr reader have been spawned.
\<close>

theorem start_reader_once:
  "(start_reader ^^ Suc n) st = start_reader st \<and>
   threads ((start_reader ^^ Suc n) (initial_state dbg ls)) = [Stdout_reader, Stderr_reader]"
proof -
  have idem: "start_reader (start_reader s) = start_reader s" for s
    by (simp add: start_reader_def)
  have rep: "(start_reader ^^ Suc k) s = start_reader s" for k s
    by (induction k) (simp_all add: idem)
  have "threads (start_reader (initial_state dbg ls)) = [Stdout_reader, Stderr_reader]"
    by (simp add: start_reader_def initial_state_def)
  with rep show ?thesis by simp
qed

section \<open>The idle window of read_responses\<close>

lemma responses_window:
  "reader_started st \<Longrightarrow> response_queue st = q \<Longrightarrow>
   fst (read_responses_loop 1 acc st) =
     Inr (acc @ collected (takeWhile (\<lambda>x. fst x \<le> 1) q))"
proof (induction q arbitrary: st acc)
  case Nil
  then show ?case
    by (subst read_responses_loop.simps) (simp add: queue_get_def)
next
  case (Cons x q)
  obtain g l where x: "x = (g, l)" by (cases x)
  show ?case
  proof (cases "g \<le> 1")
    case False
    with Cons.prems x show ?thesis
      by (subst read_responses_loop.simps) (simp add: queue_get_def)
  next
    case True
    let ?st1 = "st\<lparr>response_queue := q, clock := clock st + g\<rparr>"
    have get: "queue_get 1 st = (Item l, ?st1)"
      using True Cons.prems x by (intro queue_get_item) simp_all
    show ?thesis
    proof (cases l)
      case (Unparsable s)
      have "fst (read_responses_loop 1 acc (if s = [] then ?st1 else print [Print_raw s] ?st1)) =
          Inr (acc @ collected (takeWhile (\<lambda>x. fst x \<le> 1) q))"
        using Cons.prems(1) by (intro Cons.IH) (simp_all add: print_def)
      then show ?thesis
        using True x Unparsable
        by (subst read_responses_loop.simps) (auto simp: get split: if_splits)
    next
      case (Parsed v)
      have "fst (read_responses_loop 1 (acc @ [v]) (debug (Debug_response v) ?st1)) =
          Inr ((acc @ [v]) @ collected (takeWhile (\<lambda>x. fst x \<le> 1) q))"
        using Cons.prems(1) by (intro Cons.IH) (simp_all add: debug_def print_def)
      then show ?thesis
        using True x Parsed
        by (subst read_responses_loop.simps) (simp add: get)
    qed
  qed
qed

text \<open>
  C9. When the first line that is not blank arrives within the caller's timeout, every
  later line is waited for at most one second, whatever the caller's timeout:
  \<open>read_responses\<close> returns the parsed values of that first line and of the lines after
  it up to the first one that takes more than a second to arrive. That line and all
  after it are not in the returned list.
\<close>

theorem read_responses_window:
  assumes "0 \<le> timeout" and "response_queue st = (g, l) # q"
    and "g \<le> real_of_int timeout" and "l \<noteq> Unparsable []"
  shows "fst (read_responses timeout st) =
           Inr (collected ((g, l) # takeWhile (\<lambda>x. fst x \<le> 1) q))"
proof -
  let ?s0 = "start_reader st"
  have s0: "reader_started ?s0" "response_queue ?s0 = (g, l) # q"
    using assms(2) by (simp_all add: start_reader_def)
  let ?st1 = "?s0\<lparr>response_queue := q, clock := clock ?s0 + g\<rparr>"
  have get: "queue_get timeout ?s0 = (Item l, ?st1)"
    using s0 assms(1,3) by (intro queue_get_item)
  show ?thesis
  proof (cases l)
    case (Unparsable s)
    with assms(4) have s: "s \<noteq> []" by simp
    have "fst (read_responses_loop 1 [] (print [Print_raw s] ?st1)) =
        Inr ([] @ collected (takeWhile (\<lambda>x. fst x \<le> 1) q))"
      using s0(1) by (intro responses_window) (simp_all add: print_def)
    then show ?thesis
      unfolding read_responses_def
      by (subst read_responses_loop.simps) (simp add: get Unparsable s)
  next
    case (Parsed v)
    have "fst (read_responses_loop 1 ([] @ [v]) (debug (Debug_response v) ?st1)) =
        Inr (([] @ [v]) @ collected (takeWhile (\<lambda>x. fst x \<le> 1) q))"
      using s0(1) by (intro responses_window) (simp_all add: debug_def print_def)
    then show ?thesis
      unfolding read_responses_def
      by (subst read_responses_loop.simps) (simp add: get Parsed)
  qed
qed

theorem read_responses_window_witness:
  "(0::int) \<le> 10 \<and>
   response_queue (initial_state False
     [(4, Parsed (JInt 1)), (1/2, Parsed (JInt 2)), (3/2, Parsed (JInt 3)), (0, Parsed (JInt 4))])
     = (4, Parsed (JInt 1)) # [(1/2, Parsed (JInt 2)), (3/2, Parsed (JInt 3)), (0, Parsed (JInt 4))] \<and>
   (4::real) \<le> real_of_int 10 \<and> Parsed (JInt 1) \<noteq> Unparsable [] \<and>
   fst (read_responses 10 (initial_state False
     [(4, Parsed (JInt 1)), (1/2, Parsed (JInt 2)), (3/2, Parsed (JInt 3)), (0, Parsed (JInt 4))]))
     = Inr [JInt 1, JInt 2]"
proof -
  have h1: "(0::int) \<le> 10" by simp
  have h2: "response_queue (initial_state False
     [(4, Parsed (JInt 1)), (1/2, Parsed (JInt 2)), (3/2, Parsed (JInt 3)), (0, Parsed (JInt 4))])
     = (4, Parsed (JInt 1)) # [(1/2, Parsed (JInt 2)), (3/2, Parsed (JInt 3)), (0, Parsed (JInt 4))]"
    by (simp add: initial_state_def)
  have h3: "(4::real) \<le> real_of_int 10" by simp
  have h4: "Parsed (JInt 1) \<noteq> Unparsable []" by simp
  show ?thesis
    using read_responses_window [OF h1 h2 h3 h4] h2
    by simp
qed

section \<open>The ids of the requests\<close>

lemma request_ids_append: "request_ids (xs @ ys) = request_ids xs @ request_ids ys"
  by (induction xs rule: request_ids.induct) simp_all

lemma dispatch_no_requests: "request_ids (fst (snd (dispatch dbg n v))) = []"
proof (cases v)
  case (JObj p)
  show ?thesis unfolding JObj
    by (cases "session_update dbg p")
       (auto simp: dispatch_def request_permission_def split: option.splits json.splits)
qed (simp_all add: dispatch_def)

lemma responses_stdin:
  "response_queue st = q \<Longrightarrow> stdin (snd (read_responses_loop timeout acc st)) = stdin st"
proof (induction q arbitrary: st acc timeout)
  case Nil
  then show ?case
    by (subst read_responses_loop.simps) (simp add: queue_get_def)
next
  case (Cons x q)
  obtain g l where x: "x = (g, l)" by (cases x)
  show ?case
  proof (cases "0 \<le> timeout \<and> reader_started st \<and> g \<le> real_of_int timeout")
    case False
    with Cons.prems x show ?thesis
      by (subst read_responses_loop.simps) (auto simp: queue_get_def)
  next
    case True
    let ?st1 = "st\<lparr>response_queue := q, clock := clock st + g\<rparr>"
    have get: "queue_get timeout st = (Item l, ?st1)"
      using True Cons.prems x by (intro queue_get_item) simp_all
    have ih: "response_queue s' = q \<Longrightarrow> stdin s' = stdin st \<Longrightarrow>
        stdin (snd (read_responses_loop t' acc' s')) = stdin st" for s' t' acc'
      using Cons.IH [of s' t' acc'] by simp
    show ?thesis
      by (subst read_responses_loop.simps)
         (cases l; simp add: get ih print_def debug_def)
  qed
qed

lemma streaming_request_ids:
  "response_queue st = q \<Longrightarrow>
   request_ids (stdin (snd (read_streaming_loop timeout n st))) = request_ids (stdin st)"
proof (induction q arbitrary: st n)
  case Nil
  then show ?case
    by (subst read_streaming_loop.simps) (simp add: queue_get_def print_def)
next
  case (Cons x q)
  obtain g l where x: "x = (g, l)" by (cases x)
  show ?case
  proof (cases "0 \<le> timeout \<and> reader_started st \<and> g \<le> real_of_int timeout")
    case False
    with Cons.prems x show ?thesis
      by (subst read_streaming_loop.simps) (auto simp: queue_get_def print_def)
  next
    case True
    let ?st1 = "st\<lparr>response_queue := q, clock := clock st + g\<rparr>"
    have get: "queue_get timeout st = (Item l, ?st1)"
      using True Cons.prems x by (intro queue_get_item) simp_all
    have ih: "response_queue s' = q \<Longrightarrow> request_ids (stdin s') = request_ids (stdin st) \<Longrightarrow>
        request_ids (stdin (snd (read_streaming_loop timeout n' s'))) = request_ids (stdin st)"
      for s' n'
      using Cons.IH [of s' n'] by simp
    show ?thesis
    proof (cases l)
      case (Unparsable s)
      then show ?thesis
        by (subst read_streaming_loop.simps) (simp add: get ih print_def)
    next
      case (Parsed v)
      show ?thesis
        by (subst read_streaming_loop.simps)
           (cases "snd (snd (dispatch (debug_flag st) (Suc n) v))";
            simp add: get Parsed handle_message_eq ih request_ids_append dispatch_no_requests)
    qed
  qed
qed

lemma read_responses_stdin: "stdin (snd (read_responses timeout st)) = stdin st"
  unfolding read_responses_def
  using responses_stdin [of "start_reader st" _ timeout "[]"]
  by (simp add: start_reader_def)

lemma send_request_ids:
  "request_ids (stdin (send_jsonrpc m ps i st)) = request_ids (stdin st) @ [i]"
  by (simp add: send_jsonrpc_def debug_def print_def request_ids_append)

lemma prompt_request_ids:
  "request_ids (stdin (snd (prompt a sid r st))) = request_ids (stdin st) @ [r]"
  unfolding prompt_def read_streaming_def
  using streaming_request_ids [of "start_reader (send_jsonrpc ''session/prompt''
          (JObj [(''sessionId'', sid),
                 (''prompt'', JArr [JObj [(''type'', JStr ''text''),
                                          (''text'', JStr (arg_prompt a))]])]) r st)"]
  by (simp add: start_reader_def send_request_ids)

lemma set_model_ids:
  "set_model a sid r st = (x, r', st') \<Longrightarrow>
   (request_ids (stdin st') = request_ids (stdin st) \<and> r' = r \<and> x = None) \<or>
   (request_ids (stdin st') = request_ids (stdin st) @ [r] \<and> (x = None \<longrightarrow> r' = r + 1))"
  using read_responses_stdin [of 10 "send_jsonrpc ''session/set_model''
       (JObj [(''sessionId'', sid), (''modelId'', JStr (the (arg_model a)))]) r st"]
  by (auto simp: set_model_def send_request_ids split: if_splits prod.splits sum.splits)

lemma set_mode_ids:
  "set_mode a sid r st = (x, r', st') \<Longrightarrow>
   (request_ids (stdin st') = request_ids (stdin st) \<and> r' = r \<and> x = None) \<or>
   (request_ids (stdin st') = request_ids (stdin st) @ [r] \<and> (x = None \<longrightarrow> r' = r + 1))"
  using read_responses_stdin [of 10 "send_jsonrpc ''session/set_mode''
       (JObj [(''sessionId'', sid), (''modeId'', JStr (the (arg_mode a)))]) r st"]
  by (auto simp: set_mode_def send_request_ids split: if_splits prod.splits sum.splits)

lemma configure_ids:
  "request_ids (stdin st) = [1, 2] \<Longrightarrow>
   request_ids (stdin (snd (configure_and_prompt a sid st)))
     \<in> {[1, 2, 3], [1, 2, 3, 4], [1, 2, 3, 4, 5]}"
proof -
  assume base: "request_ids (stdin st) = [1, 2]"
  obtain x r1 st1 where m: "set_model a sid 3 st = (x, r1, st1)" by (cases "set_model a sid 3 st")
  obtain y r2 st2 where d: "set_mode a sid r1 st1 = (y, r2, st2)"
    by (cases "set_mode a sid r1 st1")
  obtain ex st3 where p: "prompt a sid r2 st2 = (ex, st3)" by (cases "prompt a sid r2 st2")
  have p3: "request_ids (stdin st3) = request_ids (stdin st2) @ [r2]"
    using prompt_request_ids [of a sid r2 st2] p by simp
  show ?thesis
    using set_model_ids [OF m] set_mode_ids [OF d] p3 base
    by (cases x; cases y; cases ex) (auto simp: configure_and_prompt_def m d p)
qed

lemma main_try_ids:
  "stdin st = [] \<Longrightarrow>
   request_ids (stdin (snd (main_try a dir st)))
     \<in> {[1], [1, 2], [1, 2, 3], [1, 2, 3, 4], [1, 2, 3, 4, 5]}"
proof -
  assume empty: "stdin st = []"
  let ?s1 = "send_jsonrpc ''initialize'' initialize_params 1 st"
  obtain r1 st1 where a1: "read_responses 10 ?s1 = (r1, st1)" by (cases "read_responses 10 ?s1")
  have i1: "request_ids (stdin st1) = [1]"
    using read_responses_stdin [of 10 ?s1] a1 empty by (simp add: send_request_ids)
  let ?s2 = "send_jsonrpc ''session/new'' (JObj [(''cwd'', JStr dir), (''mcpServers'', JArr [])]) 2 st1"
  obtain r2 st2 where a2: "read_responses 10 ?s2 = (r2, st2)" by (cases "read_responses 10 ?s2")
  have i2: "request_ids (stdin st2) = [1, 2]"
    using read_responses_stdin [of 10 ?s2] a2 i1 by (simp add: send_request_ids)
  show ?thesis
    using i1 i2 configure_ids [OF i2, of a]
    by (auto simp: main_try_def a1 a2 split: sum.splits option.splits)
qed

lemma gen_streaming_stdin:
  "response_queue st = q \<Longrightarrow>
   stdin (snd (read_streaming_gen_loop timeout n texts t0 st)) = stdin st"
proof (induction q arbitrary: st n texts)
  case Nil
  then show ?case
    by (subst read_streaming_gen_loop.simps) (simp add: queue_get_def print_def)
next
  case (Cons x q)
  obtain g l where x: "x = (g, l)" by (cases x)
  show ?case
  proof (cases "0 \<le> timeout \<and> reader_started st \<and> g \<le> real_of_int timeout")
    case False
    with Cons.prems x show ?thesis
      by (subst read_streaming_gen_loop.simps) (auto simp: queue_get_def print_def)
  next
    case True
    let ?st1 = "st\<lparr>response_queue := q, clock := clock st + g\<rparr>"
    have get: "queue_get timeout st = (Item l, ?st1)"
      using True Cons.prems x by (intro queue_get_item) simp_all
    have ih: "response_queue s' = q \<Longrightarrow> stdin s' = stdin st \<Longrightarrow>
        stdin (snd (read_streaming_gen_loop timeout n' texts' t0 s')) = stdin st"
      for s' n' texts'
      using Cons.IH [of s' n' texts'] by simp
    show ?thesis
    proof (cases l)
      case (Unparsable s)
      then show ?thesis
        by (subst read_streaming_gen_loop.simps) (simp add: get ih print_def)
    next
      case (Parsed v)
      obtain es ts sg where d: "gen_dispatch (debug_flag st) (Suc n) v = (es, ts, sg)"
        by (cases "gen_dispatch (debug_flag st) (Suc n) v")
      show ?thesis
        by (subst read_streaming_gen_loop.simps)
           (cases sg; simp add: get Parsed d ih print_def)
    qed
  qed
qed

lemma gen_set_ids:
  "gen_set m ps r st = (x, r', st') \<Longrightarrow>
   request_ids (stdin st') = request_ids (stdin st) @ [r] \<and> (x = None \<longrightarrow> r' = r + 1)"
  using read_responses_stdin [of 10 "send_jsonrpc m ps r st"]
  by (auto simp: gen_set_def send_request_ids split: if_splits prod.splits sum.splits)

lemma gen_configure_ids:
  assumes base: "request_ids (stdin st) = [1, 2]"
  shows "request_ids (stdin (snd (gen_configure_and_prompt a ptext sid st)))
     \<in> {[1, 2, 3], [1, 2, 3, 4], [1, 2, 3, 4, 5]}"
proof -
  let ?m = "gen_set ''session/set_model''
             (JObj [(''sessionId'', sid), (''modelId'', JStr (gen_model a))]) 3 st"
  obtain x r1 st1 where m: "?m = (x, r1, st1)" by (cases ?m)
  from gen_set_ids [OF m] base have m1: "request_ids (stdin st1) = [1, 2, 3]"
    and r1: "x = None \<longrightarrow> r1 = 4" by simp_all
  show ?thesis
  proof (cases x)
    case (Some e)
    then show ?thesis using m1 by (simp add: gen_configure_and_prompt_def m)
  next
    case None
    with r1 have r14: "r1 = 4" by simp
    let ?d = "gen_set ''session/set_mode''
                  (JObj [(''sessionId'', sid), (''modeId'', JStr (gen_mode a))]) r1 st1"
    obtain y r2 st2 where d: "?d = (y, r2, st2)" by (cases ?d)
    from gen_set_ids [OF d] m1 r14 have d1: "request_ids (stdin st2) = [1, 2, 3, 4]"
      and r2: "y = None \<longrightarrow> r2 = 5" by simp_all
    show ?thesis
    proof (cases y)
      case (Some e)
      then show ?thesis using d1 None by (simp add: gen_configure_and_prompt_def m d)
    next
      case yNone: None
      with r2 have r25: "r2 = 5" by simp
      let ?send = "send_jsonrpc ''session/prompt''
                          (JObj [(''sessionId'', sid),
                                 (''prompt'', JArr [JObj [(''type'', JStr ''text''),
                                                          (''text'', JStr ptext)]])]) r2 st2"
      obtain ex st3 where p: "read_streaming_gen 120 ?send = (ex, st3)"
        by (cases "read_streaming_gen 120 ?send")
      have "stdin st3 = stdin ?send"
        using gen_streaming_stdin [of "start_reader ?send" _ 120 0 "[]" "clock (start_reader ?send)"] p
        by (simp add: read_streaming_gen_def Let_def start_reader_def)
      then have p3: "request_ids (stdin st3) = [1, 2, 3, 4, 5]"
        using d1 r25 by (simp add: send_request_ids)
      show ?thesis using p3 None yNone
        by (cases ex) (simp_all add: gen_configure_and_prompt_def m d p)
    qed
  qed
qed

lemma gen_main_try_ids:
  "stdin st = [] \<Longrightarrow>
   request_ids (stdin (snd (gen_main_try a ptext dir st)))
     \<in> {[1], [1, 2], [1, 2, 3], [1, 2, 3, 4], [1, 2, 3, 4, 5]}"
proof -
  assume empty: "stdin st = []"
  let ?s1 = "send_jsonrpc ''initialize'' gen_initialize_params 1 st"
  obtain r1 st1 where a1: "read_responses 10 ?s1 = (r1, st1)" by (cases "read_responses 10 ?s1")
  have i1: "request_ids (stdin st1) = [1]"
    using read_responses_stdin [of 10 ?s1] a1 empty by (simp add: send_request_ids)
  let ?s2 = "send_jsonrpc ''session/new'' (JObj [(''cwd'', JStr dir), (''mcpServers'', JArr [])]) 2 st1"
  obtain r2 st2 where a2: "read_responses 10 ?s2 = (r2, st2)" by (cases "read_responses 10 ?s2")
  have i2: "request_ids (stdin st2) = [1, 2]"
    using read_responses_stdin [of 10 ?s2] a2 i1 by (simp add: send_request_ids)
  show ?thesis
    using i1 i2 gen_configure_ids [OF i2, of a ptext]
    by (auto simp: gen_main_try_def a1 a2 split: sum.splits option.splits)
qed

lemma prefix_of_five:
  "ids \<in> {[], [1], [1, 2], [1, 2, 3], [1, 2, 3, 4], [1, 2, 3, 4, 5::int]} \<Longrightarrow>
   ids = [1..int (length ids)]"
proof -
  have "[1..5] = [1, 2, 3, 4, 5::int]" "[1..4] = [1, 2, 3, 4::int]"
    "[1..3] = [1, 2, 3::int]" "[1..2] = [1, 2::int]" "[1..1] = [1::int]"
    by code_simp+
  then show "ids \<in> {[], [1], [1, 2], [1, 2, 3], [1, 2, 3, 4], [1, 2, 3, 4, 5::int]} \<Longrightarrow>
   ids = [1..int (length ids)]" by auto
qed

text \<open>
  C10. In a run of \<open>main\<close>, of \<open>scripts/test-acp.py\<close> and of \<open>test-gen-acp.py\<close> alike,
  whatever the command line and whatever the child writes, the ids of the requests
  written to the child are, in the order written, \<open>1, 2, ..., k\<close> for the number \<open>k\<close>
  of requests: positive, each the previous plus one, none used twice. (Answers to the
  child's own requests carry the child's ids and are not requests.)
\<close>

theorem request_ids_consecutive:
  "request_ids (stdin (main a e)) = [1..int (length (request_ids (stdin (main a e))))] \<and>
   request_ids (stdin (gen_main b f)) = [1..int (length (request_ids (stdin (gen_main b f))))]"
proof -
  have "request_ids (stdin (main a e))
     \<in> {[], [1], [1, 2], [1, 2, 3], [1, 2, 3, 4], [1, 2, 3, 4, 5]}"
    using main_try_ids [of "initial_state (arg_debug a) (peer_lines e)" a "cwd e"]
    by (auto simp: main_def shutdown_def initial_state_def)
  moreover have "request_ids (stdin (gen_main b f))
     \<in> {[], [1], [1, 2], [1, 2, 3], [1, 2, 3, 4], [1, 2, 3, 4, 5]}"
  proof (cases "prompt_text f")
    case None
    then show ?thesis by (simp add: gen_main_def initial_state_def)
  next
    case (Some ptext)
    then show ?thesis
      using gen_main_try_ids [of "initial_state (gen_debug b) (gen_peer_lines f)" b ptext
          "project_root f"]
      by (auto simp: gen_main_def shutdown_def initial_state_def)
  qed
  ultimately show ?thesis using prefix_of_five by blast
qed

end
